theory Spec2Isabelle
  imports
    Main
    "HOL-Library.Multiset"
    "HOL-Library.Product_Lexorder"
    "HOL-Library.List_Lexorder"
    "HOL-Library.Char_ord"
begin

section \<open>The dashboard script \<^verbatim>\<open>app.py\<close>\<close>

text \<open>
  The script is one top-to-bottom run: a debt section (lines 38-73), a hepatitis section
  (lines 102-165) and a closing message (lines 183-192). A data frame is a list of rows,
  a column is the list of one field of the rows, a missing cell (NaN, NaT) is \<open>None\<close>.
  What a widget returns is what the user set, or the widget's default when the user has
  not touched it: the user's setting is an \<open>option\<close> argument of each widget.
  An exception of the script is the \<open>Inl\<close> branch of a sum.
\<close>

datatype error = ValueError | StreamlitAPIException

subsection \<open>Debt section\<close>

text \<open>
  A row of the debt data: the three columns the script reads. \<open>refPeriod\<close> is an
  integer year, \<open>Value\<close> is numeric and never inspected, so its type is left open.
\<close>

record 'v DebtRecord =
  refPeriod :: int
  Indicator_Code :: string
  Value :: 'v

text \<open>Line 43: \<^verbatim>\<open>df_debt[df_debt["Indicator Code"] == "DT.TDS.DPPG.CD"]\<close>.\<close>

definition filter_indicator :: "'v DebtRecord list \<Rightarrow> 'v DebtRecord list" where
  "filter_indicator df = filter (\<lambda>r. Indicator_Code r = ''DT.TDS.DPPG.CD'') df"

text \<open>
  Line 46: \<^verbatim>\<open>df_debt.sort_values("refPeriod")\<close>. The order pandas gives to rows of
  equal \<open>refPeriod\<close> is that of its default sorting algorithm; the model sorts by
  insertion, and the theorems below speak of the rows as a multiset and of their order by
  \<open>refPeriod\<close> only.
\<close>

definition sort_values :: "'v DebtRecord list \<Rightarrow> 'v DebtRecord list" where
  "sort_values df = sort_key refPeriod df"

definition df_debt :: "'v DebtRecord list \<Rightarrow> 'v DebtRecord list" where
  "df_debt csv = sort_values (filter_indicator csv)"

text \<open>
  Lines 49-50: \<^verbatim>\<open>int(df_debt["refPeriod"].min())\<close>. The minimum of an empty column is
  NaN, and \<^verbatim>\<open>int\<close> of NaN raises \<^verbatim>\<open>ValueError\<close>.
\<close>

definition series_min :: "int list \<Rightarrow> error + int" where
  "series_min col = (case col of [] \<Rightarrow> Inl ValueError | x # xs \<Rightarrow> Inr (fold min xs x))"

definition series_max :: "int list \<Rightarrow> error + int" where
  "series_max col = (case col of [] \<Rightarrow> Inl ValueError | x # xs \<Rightarrow> Inr (fold max xs x))"

definition min_year :: "'v DebtRecord list \<Rightarrow> error + int" where
  "min_year df = series_min (map refPeriod df)"

definition max_year :: "'v DebtRecord list \<Rightarrow> error + int" where
  "max_year df = series_max (map refPeriod df)"

text \<open>
  Lines 52-57: the call of \<^verbatim>\<open>st.slider\<close>. A \<open>slider\<close> holds \<open>min_value\<close>, \<open>max_value\<close>
  and the default \<open>value\<close>, a pair: first the arguments of the call, then the control
  the page offers. The call is library code; as far as the script depends on it, it
  raises when the two bounds passed are equal, it swaps a default given in reverse order,
  it widens the bounds to include the default, it raises when a bound is beyond the
  integers JavaScript represents exactly, and it returns the user's setting (a pair the
  control keeps within the offered bounds), or the default when the user has not touched
  the control.
\<close>

record slider =
  min_value :: int
  max_value :: int
  slider_value :: "int \<times> int"

definition year_slider :: "int \<Rightarrow> int \<Rightarrow> slider" where
  "year_slider mn mx = \<lparr>min_value = mn, max_value = mx, slider_value = (1970, mx)\<rparr>"

definition js_safe :: "int \<Rightarrow> bool" where
  "js_safe n \<longleftrightarrow> - (2 ^ 53 - 1) \<le> n \<and> n \<le> 2 ^ 53 - 1"

definition st_slider :: "slider \<Rightarrow> (int \<times> int) option \<Rightarrow> error + (slider \<times> (int \<times> int))" where
  "st_slider args user =
     (if min_value args = max_value args then Inl StreamlitAPIException
      else
        (let start = fst (slider_value args);
             stop = snd (slider_value args);
             dflt = (if start > stop then (stop, start) else (start, stop));
             lo = min (fst dflt) (min (min_value args) (max_value args));
             hi = max (snd dflt) (max (min_value args) (max_value args))
         in if js_safe lo \<and> js_safe hi
            then Inr (\<lparr>min_value = lo, max_value = hi, slider_value = dflt\<rparr>,
                      (case user of None \<Rightarrow> dflt | Some chosen \<Rightarrow> chosen))
            else Inl StreamlitAPIException))"

text \<open>Lines 59-62: the rows within the chosen range.\<close>

definition df_debt_filtered :: "'v DebtRecord list \<Rightarrow> int \<times> int \<Rightarrow> 'v DebtRecord list" where
  "df_debt_filtered df year_range =
     filter (\<lambda>r. refPeriod r \<ge> fst year_range \<and> refPeriod r \<le> snd year_range) df"

text \<open>
  Lines 40-73 together. The result is the slider the page offers and the data frame handed
  to \<^verbatim>\<open>px.line\<close>; an exception ends the run.
\<close>

definition debt_section ::
  "'v DebtRecord list \<Rightarrow> (int \<times> int) option \<Rightarrow> error + (slider \<times> 'v DebtRecord list)" where
  "debt_section csv user =
     (let df = df_debt csv in
      case min_year df of
        Inl e \<Rightarrow> Inl e
      | Inr mn \<Rightarrow>
          (case max_year df of
             Inl e \<Rightarrow> Inl e
           | Inr mx \<Rightarrow>
               (case st_slider (year_slider mn mx) user of
                  Inl e \<Rightarrow> Inl e
                | Inr (w, year_range) \<Rightarrow> Inr (w, df_debt_filtered df year_range))))"

subsection \<open>Hepatitis section\<close>

record HepatitisRecord =
  refPeriod_text :: string
  Number_of_cases :: int

text \<open>
  A parsed date is the first day of a month: the pair (year, month), ordered
  lexicographically, which is the order of the timestamps.
\<close>

type_synonym date = "nat \<times> nat"

definition is_digit :: "char \<Rightarrow> bool" where
  "is_digit c \<longleftrightarrow> c \<in> set ''0123456789''"

definition digit_val :: "char \<Rightarrow> nat" where
  "digit_val c = of_char c - 48"

text \<open>
  Line 107: \<^verbatim>\<open>str.extract(r"(\d{2}-\d{4})")\<close>, the leftmost match or NaN. \<open>re_match\<close>
  is the pattern matched at the head of the text. Strings are ASCII here, where \<^verbatim>\<open>\d\<close>
  is \<open>0\<close> to \<open>9\<close>.
\<close>

fun re_match :: "string \<Rightarrow> bool" where
  "re_match (m1 # m2 # sep # y1 # y2 # y3 # y4 # rest) \<longleftrightarrow>
     is_digit m1 \<and> is_digit m2 \<and> sep = CHR ''-'' \<and>
     is_digit y1 \<and> is_digit y2 \<and> is_digit y3 \<and> is_digit y4"
| "re_match _ \<longleftrightarrow> False"

fun str_extract :: "string \<Rightarrow> string option" where
  "str_extract [] = None"
| "str_extract (c # cs) =
     (if re_match (c # cs) then Some (take 7 (c # cs)) else str_extract cs)"

text \<open>
  Line 110: \<^verbatim>\<open>pd.to_datetime(..., format="%m-%Y", errors="coerce")\<close>. The whole cell
  must read as \<^verbatim>\<open>%m\<close> (\<^verbatim>\<open>1[0-2]|0[1-9]|[1-9]\<close>), a hyphen, \<^verbatim>\<open>%Y\<close> (four digits),
  and the date must be one the installed pandas can represent; every failure is coerced
  to NaT. Which dates can be represented depends on the version of pandas, which the
  repository does not fix: it is the parameter \<open>bounds\<close> of \<open>to_datetime\<close> and of
  everything computed from it.
\<close>

definition parse_month :: "string \<Rightarrow> nat option" where
  "parse_month s =
     (case s of
        [a] \<Rightarrow> if a \<in> set ''123456789'' then Some (digit_val a) else None
      | [a, b] \<Rightarrow>
          if (a = CHR ''1'' \<and> b \<in> set ''012'') \<or> (a = CHR ''0'' \<and> b \<in> set ''123456789'')
          then Some (10 * digit_val a + digit_val b) else None
      | _ \<Rightarrow> None)"

definition parse_year :: "string \<Rightarrow> nat option" where
  "parse_year s =
     (if length s = 4 \<and> list_all is_digit s
      then Some (foldl (\<lambda>n c. 10 * n + digit_val c) 0 s) else None)"

definition strptime :: "string \<Rightarrow> date option" where
  "strptime s =
     (case dropWhile (\<lambda>c. c \<noteq> CHR ''-'') s of
        [] \<Rightarrow> None
      | _ # y \<Rightarrow>
          (case parse_month (takeWhile (\<lambda>c. c \<noteq> CHR ''-'') s) of
             None \<Rightarrow> None
           | Some mo \<Rightarrow>
               (case parse_year y of None \<Rightarrow> None | Some ye \<Rightarrow> Some (ye, mo))))"

definition to_datetime :: "(date \<Rightarrow> bool) \<Rightarrow> string option \<Rightarrow> date option" where
  "to_datetime bounds cell =
     (case cell of
        None \<Rightarrow> None
      | Some s \<Rightarrow>
          (case strptime s of
             None \<Rightarrow> None
           | Some d \<Rightarrow> if bounds d then Some d else None))"

text \<open>
  The dates of a nanosecond timestamp, the only resolution of pandas before 3.0:
  21 September 1677 to 11 April 2262.
\<close>

definition nanoseconds :: "date \<Rightarrow> bool" where
  "nanoseconds d \<longleftrightarrow> (1677, 10) \<le> d \<and> d \<le> (2262, 4)"

text \<open>Line 116: \<^verbatim>\<open>dt.year.astype(str)\<close>, the decimal text of the year.\<close>

function str_nat :: "nat \<Rightarrow> string" where
  "str_nat n =
     (if n < 10 then [char_of (48 + n)]
      else str_nat (n div 10) @ [char_of (48 + n mod 10)])"
  by pat_completeness auto
termination
  by (relation "measure id") auto

declare str_nat.simps [simp del]

text \<open>
  Lines 107-116, row by row: the cell \<open>refPeriod\<close> is overwritten by the extracted text,
  \<open>Date\<close> is parsed from it, a row without \<open>Date\<close> is dropped, \<open>Year\<close> is added.
\<close>

record DatedRecord = HepatitisRecord +
  Date :: date
  Year :: string

definition dated :: "(date \<Rightarrow> bool) \<Rightarrow> HepatitisRecord \<Rightarrow> DatedRecord option" where
  "dated bounds r =
     (case str_extract (refPeriod_text r) of
        None \<Rightarrow> None
      | Some tok \<Rightarrow>
          (case to_datetime bounds (Some tok) of
             None \<Rightarrow> None
           | Some d \<Rightarrow>
               Some \<lparr>refPeriod_text = tok, Number_of_cases = Number_of_cases r,
                     Date = d, Year = str_nat (fst d)\<rparr>))"

definition df_hepatitis :: "(date \<Rightarrow> bool) \<Rightarrow> HepatitisRecord list \<Rightarrow> DatedRecord list" where
  "df_hepatitis bounds csv = List.map_filter (dated bounds) csv"

text \<open>
  \<^verbatim>\<open>df.groupby(keys)[col].sum().reset_index()\<close>: one row for each key that occurs, the
  keys ascending, with the sum of the column over the rows of that key.
\<close>

definition groupby_sum ::
  "('r \<Rightarrow> 'k::linorder) \<Rightarrow> ('r \<Rightarrow> int) \<Rightarrow> 'r list \<Rightarrow> ('k \<times> int) list" where
  "groupby_sum key col df =
     map (\<lambda>k. (k, sum_list (map col (filter (\<lambda>r. key r = k) df))))
         (sort (remdups (map key df)))"

text \<open>Line 119. A \<open>CaseBucket\<close> is a row of \<open>cases_over_time\<close>.\<close>

type_synonym CaseBucket = "(date \<times> string) \<times> int"


definition bucket_Year :: "CaseBucket \<Rightarrow> string" where
  "bucket_Year b = snd (fst b)"

definition bucket_cases :: "CaseBucket \<Rightarrow> int" where
  "bucket_cases b = snd b"

definition cases_over_time :: "(date \<Rightarrow> bool) \<Rightarrow> HepatitisRecord list \<Rightarrow> CaseBucket list" where
  "cases_over_time bounds csv =
     groupby_sum (\<lambda>r. (Date r, Year r)) Number_of_cases (df_hepatitis bounds csv)"

text \<open>Lines 126-133.\<close>

definition years_available :: "CaseBucket list \<Rightarrow> string list" where
  "years_available buckets = sort (remdups (map bucket_Year buckets))"

definition st_multiselect :: "string list \<Rightarrow> string list \<Rightarrow> string list option \<Rightarrow> string list" where
  "st_multiselect options dflt user = (case user of None \<Rightarrow> dflt | Some chosen \<Rightarrow> chosen)"

definition years_selected ::
  "(date \<Rightarrow> bool) \<Rightarrow> HepatitisRecord list \<Rightarrow> string list option \<Rightarrow> string list" where
  "years_selected bounds csv user =
     st_multiselect (years_available (cases_over_time bounds csv))
       (years_available (cases_over_time bounds csv)) user"

definition isin :: "CaseBucket list \<Rightarrow> string list \<Rightarrow> CaseBucket list" where
  "isin buckets sel = filter (\<lambda>b. bucket_Year b \<in> set sel) buckets"

definition cases_filtered ::
  "(date \<Rightarrow> bool) \<Rightarrow> HepatitisRecord list \<Rightarrow> string list option \<Rightarrow> CaseBucket list" where
  "cases_filtered bounds csv user =
     isin (cases_over_time bounds csv) (years_selected bounds csv user)"

text \<open>Lines 136-139: \<^verbatim>\<open>st.radio\<close> returns the first option until the user picks one.\<close>

definition st_radio :: "string list \<Rightarrow> string option \<Rightarrow> string option" where
  "st_radio options user =
     (case user of
        Some chosen \<Rightarrow> Some chosen
      | None \<Rightarrow> (case options of [] \<Rightarrow> None | x # _ \<Rightarrow> Some x))"

definition aggregation :: "string option \<Rightarrow> string option" where
  "aggregation user = st_radio [''Monthly Cases'', ''Yearly Totals''] user"

text \<open>Lines 144-162: the data frame handed to \<^verbatim>\<open>px.bar\<close>, one bar for each row.\<close>

definition yearly_cases :: "CaseBucket list \<Rightarrow> (string \<times> int) list" where
  "yearly_cases filtered = groupby_sum bucket_Year bucket_cases filtered"

datatype bar_fig = Yearly_Totals "(string \<times> int) list" | Monthly_Cases "CaseBucket list"

fun bars :: "bar_fig \<Rightarrow> nat" where
  "bars (Yearly_Totals df) = length df"
| "bars (Monthly_Cases df) = length df"

definition hepatitis_section ::
  "(date \<Rightarrow> bool) \<Rightarrow> HepatitisRecord list \<Rightarrow> string list option \<Rightarrow> string option \<Rightarrow> bar_fig" where
  "hepatitis_section bounds csv user_years user_view =
     (if aggregation user_view = Some ''Yearly Totals''
      then Yearly_Totals (yearly_cases (cases_filtered bounds csv user_years))
      else Monthly_Cases (cases_filtered bounds csv user_years))"

subsection \<open>Closing message and the whole run\<close>

text \<open>Lines 183-192: \<^verbatim>\<open>message.split()\<close> and the texts shown one after the other.\<close>

definition is_space :: "char \<Rightarrow> bool" where
  "is_space c \<longleftrightarrow> (of_char c :: nat) \<in> set [9, 10, 11, 12, 13, 28, 29, 30, 31, 32]"

fun split_from :: "string \<Rightarrow> string \<Rightarrow> string list" where
  "split_from word [] = (if word = [] then [] else [word])"
| "split_from word (c # cs) =
     (if is_space c then (if word = [] then split_from [] cs else word # split_from [] cs)
      else split_from (word @ [c]) cs)"

fun reveal :: "string \<Rightarrow> string list \<Rightarrow> string list" where
  "reveal text [] = []"
| "reveal text (word # words) =
     (text @ word @ '' '') # reveal (text @ word @ '' '') words"

definition closing :: "bool \<Rightarrow> string list" where
  "closing button =
     (if button
      then reveal [] (split_from [] ''From debt to disease, I hope you learned something new! :)'')
      else [])"

record 'v script_inputs =
  debt_csv :: "'v DebtRecord list"
  hepatitis_csv :: "HepatitisRecord list"
  year_range_set :: "(int \<times> int) option"
  years_set :: "string list option"
  view_set :: "string option"
  button :: bool

record 'v page =
  year_range_slider :: slider
  fig_debt :: "'v DebtRecord list"
  fig :: bar_fig
  success :: "string list"

definition run_script :: "(date \<Rightarrow> bool) \<Rightarrow> 'v script_inputs \<Rightarrow> error + 'v page" where
  "run_script bounds inp =
     (case debt_section (debt_csv inp) (year_range_set inp) of
        Inl e \<Rightarrow> Inl e
      | Inr (w, filtered) \<Rightarrow>
          Inr \<lparr>year_range_slider = w,
               fig_debt = filtered,
               fig = hepatitis_section bounds (hepatitis_csv inp) (years_set inp) (view_set inp),
               success = closing (button inp)\<rparr>)"

subsection \<open>Example data\<close>

definition debt_example :: "int DebtRecord list" where
  "debt_example =
     [\<lparr>refPeriod = 2022, Indicator_Code = ''DT.TDS.DPPG.CD'', Value = 0\<rparr>,
      \<lparr>refPeriod = 1975, Indicator_Code = ''DT.DOD.DECT.CD'', Value = 9\<rparr>,
      \<lparr>refPeriod = 1980, Indicator_Code = ''DT.TDS.DPPG.CD'', Value = 50\<rparr>,
      \<lparr>refPeriod = 1970, Indicator_Code = ''DT.TDS.DPPG.CD'', Value = 5\<rparr>]"




definition hepatitis_example :: "HepatitisRecord list" where
  "hepatitis_example =
     [\<lparr>refPeriod_text = ''01-2015'', Number_of_cases = 10\<rparr>,
      \<lparr>refPeriod_text = ''13-2015'', Number_of_cases = 5\<rparr>]"

definition hepatitis_months :: "HepatitisRecord list" where
  "hepatitis_months =
     [\<lparr>refPeriod_text = ''01-2015'', Number_of_cases = 10\<rparr>,
      \<lparr>refPeriod_text = ''Hepatitis A 03-2016'', Number_of_cases = 2\<rparr>,
      \<lparr>refPeriod_text = ''02-2015'', Number_of_cases = 4\<rparr>,
      \<lparr>refPeriod_text = ''01-2015'', Number_of_cases = 1\<rparr>]"

section \<open>Properties of the debt section\<close>



lemma series_min_Nil: "series_min [] = Inl ValueError"
  by (simp add: series_min_def)

lemma series_max_Nil: "series_max [] = Inl ValueError"
  by (simp add: series_max_def)

lemma set_df_debt:
  "set (df_debt csv) = {r \<in> set csv. Indicator_Code r = ''DT.TDS.DPPG.CD''}"
  by (simp add: df_debt_def sort_values_def filter_indicator_def)

lemma mset_df_debt:
  "mset (df_debt csv) = mset (filter (\<lambda>r. Indicator_Code r = ''DT.TDS.DPPG.CD'') csv)"
  by (simp add: df_debt_def sort_values_def filter_indicator_def)

lemma sorted_df_debt: "sorted (map refPeriod (df_debt csv))"
  by (simp add: df_debt_def sort_values_def)

lemma df_debt_Nil_iff: "df_debt csv = [] \<longleftrightarrow> filter_indicator csv = []"
  by (metis df_debt_def sort_values_def mset_sort mset_zero_iff)

lemma mset_df_debt_filtered:
  "mset (df_debt_filtered (df_debt csv) (lo, hi)) =
   mset (filter (\<lambda>r. Indicator_Code r = ''DT.TDS.DPPG.CD'' \<and> lo \<le> refPeriod r \<and> refPeriod r \<le> hi) csv)"
  by (simp add: df_debt_filtered_def mset_df_debt filter_filter_mset)
  
lemma sorted_df_debt_filtered: "sorted (map refPeriod (df_debt_filtered (df_debt csv) yr))"
  unfolding df_debt_filtered_def
  by (metis sorted_df_debt sorted_filter)

lemma st_slider_Inr:
  assumes "st_slider args user = Inr (w, year_range)"
  shows "w = \<lparr>min_value = min (min (fst (slider_value args)) (snd (slider_value args)))
                              (min (min_value args) (max_value args)),
              max_value = max (max (fst (slider_value args)) (snd (slider_value args)))
                              (max (min_value args) (max_value args)),
              slider_value = (min (fst (slider_value args)) (snd (slider_value args)),
                              max (fst (slider_value args)) (snd (slider_value args)))\<rparr>"
    and "year_range = (case user of None \<Rightarrow> slider_value w | Some chosen \<Rightarrow> chosen)"
  using assms
  by (auto simp: st_slider_def Let_def min_def max_def split: if_splits option.splits)

lemma debt_section_Inr:
  assumes "min_year (df_debt csv) = Inr mn" and "max_year (df_debt csv) = Inr mx"
    and "st_slider (year_slider mn mx) user = Inr (w, year_range)"
  shows "debt_section csv user = Inr (w, df_debt_filtered (df_debt csv) year_range)"
  using assms by (simp add: debt_section_def Let_def)

lemma debt_section_Inl:
  assumes "filter_indicator csv = []"
  shows "debt_section csv user = Inl ValueError"
  using assms
  by (simp add: debt_section_def Let_def min_year_def series_min_Nil df_debt_def sort_values_def)

lemma debt_section_cases:
  assumes "debt_section csv user = Inr (w, view)"
  obtains mn mx year_range where "min_year (df_debt csv) = Inr mn"
    and "max_year (df_debt csv) = Inr mx"
    and "st_slider (year_slider mn mx) user = Inr (w, year_range)"
    and "view = df_debt_filtered (df_debt csv) year_range"
  using assms
  by (auto simp: debt_section_def Let_def split: sum.splits prod.splits)

lemma debt_section_view:
  assumes "debt_section csv user = Inr (w, view)"
  shows "set view \<subseteq> set (df_debt csv)"
  using assms by (elim debt_section_cases) (auto simp: df_debt_filtered_def)


lemmas debt_defs =
  debt_section_def df_debt_def filter_indicator_def sort_values_def min_year_def max_year_def
  series_min_def series_max_def year_slider_def st_slider_def js_safe_def df_debt_filtered_def

text \<open>
  Claim C1. For a user-chosen range \<open>(lo, hi)\<close> with \<open>min_year \<le> lo \<le> hi \<le> max_year\<close>,
  when the slider call succeeds, the debt section returns and its filtered view is the
  data frame filtered by \<open>(lo, hi)\<close>: it holds exactly the rows of the data with
  indicator code \<^verbatim>\<open>DT.TDS.DPPG.CD\<close> and \<open>lo \<le> refPeriod \<le> hi\<close> (each as often as it
  occurs in the data), in ascending order of \<open>refPeriod\<close>.
\<close>

theorem debt_view_exact_sorted:
  assumes "min_year (df_debt csv) = Inr mn" and "max_year (df_debt csv) = Inr mx"
    and "mn \<le> lo" and "lo \<le> hi" and "hi \<le> mx"
    and "st_slider (year_slider mn mx) (Some (lo, hi)) = Inr (w, year_range)"
  shows "year_range = (lo, hi) \<and>
         debt_section csv (Some (lo, hi)) = Inr (w, df_debt_filtered (df_debt csv) (lo, hi)) \<and>
         mset (df_debt_filtered (df_debt csv) (lo, hi)) =
           mset (filter (\<lambda>r. Indicator_Code r = ''DT.TDS.DPPG.CD'' \<and>
                              lo \<le> refPeriod r \<and> refPeriod r \<le> hi) csv) \<and>
         sorted (map refPeriod (df_debt_filtered (df_debt csv) (lo, hi)))"
proof -
  have yr: "year_range = (lo, hi)"
    using st_slider_Inr(2) [OF assms(6)] by simp
  with assms(6) have "debt_section csv (Some (lo, hi)) =
        Inr (w, df_debt_filtered (df_debt csv) (lo, hi))"
    using debt_section_Inr [OF assms(1,2), of "Some (lo, hi)" w "(lo, hi)"] by simp
  with yr show ?thesis
    using mset_df_debt_filtered [of csv lo hi] sorted_df_debt_filtered [of csv "(lo, hi)"]
    by simp
qed

text \<open>
  The example of the specification: years 1970, 1980 and 2022 with values 5, 50 and 0,
  and a row of another indicator in 1975; the range (1970, 1980) gives the two points
  (1970, 5) and (1980, 50).
\<close>

theorem debt_view_exact_sorted_witness:
  "min_year (df_debt debt_example) = Inr 1970 \<and> max_year (df_debt debt_example) = Inr 2022 \<and>
   st_slider (year_slider 1970 2022) (Some (1970, 1980)) =
     Inr (\<lparr>min_value = 1970, max_value = 2022, slider_value = (1970, 2022)\<rparr>, (1970, 1980)) \<and>
   debt_section debt_example (Some (1970, 1980)) =
     Inr (\<lparr>min_value = 1970, max_value = 2022, slider_value = (1970, 2022)\<rparr>,
          df_debt_filtered (df_debt debt_example) (1970, 1980)) \<and>
   df_debt_filtered (df_debt debt_example) (1970, 1980) =
     [\<lparr>refPeriod = 1970, Indicator_Code = ''DT.TDS.DPPG.CD'', Value = 5\<rparr>,
      \<lparr>refPeriod = 1980, Indicator_Code = ''DT.TDS.DPPG.CD'', Value = 50\<rparr>] \<and>
   sorted (map refPeriod (df_debt_filtered (df_debt debt_example) (1970, 1980)))"
proof -
  have mn: "min_year (df_debt debt_example) = Inr 1970"
    by (simp add: debt_example_def debt_defs)
  have mx: "max_year (df_debt debt_example) = Inr 2022"
    by (simp add: debt_example_def debt_defs)
  have call: "st_slider (year_slider 1970 2022) (Some (1970, 1980)) =
     Inr (\<lparr>min_value = 1970, max_value = 2022, slider_value = (1970, 2022)\<rparr>, (1970, 1980))"
    by (simp add: year_slider_def st_slider_def js_safe_def Let_def)
  have view: "df_debt_filtered (df_debt debt_example) (1970, 1980) =
     [\<lparr>refPeriod = 1970, Indicator_Code = ''DT.TDS.DPPG.CD'', Value = 5\<rparr>,
      \<lparr>refPeriod = 1980, Indicator_Code = ''DT.TDS.DPPG.CD'', Value = 50\<rparr>]"
    by (simp add: debt_example_def debt_defs)
  show ?thesis
    using debt_view_exact_sorted [OF mn mx _ _ _ call] mn mx call view by simp
qed

text \<open>
  Claim C5. Every row kept by the initial filter has indicator code
  \<^verbatim>\<open>DT.TDS.DPPG.CD\<close>, and so has every row after sorting, after the filter by year
  range, and in the view of any run of the debt section that returns (computing the
  minimum and the maximum changes no row).
\<close>

theorem indicator_invariant:
  "(\<forall>r \<in> set (filter_indicator csv). Indicator_Code r = ''DT.TDS.DPPG.CD'') \<and>
   (\<forall>r \<in> set (sort_values (filter_indicator csv)). Indicator_Code r = ''DT.TDS.DPPG.CD'') \<and>
   (\<forall>r \<in> set (df_debt_filtered (df_debt csv) year_range).
      Indicator_Code r = ''DT.TDS.DPPG.CD'') \<and>
   (\<forall>w view. debt_section csv user = Inr (w, view) \<longrightarrow>
      (\<forall>r \<in> set view. Indicator_Code r = ''DT.TDS.DPPG.CD''))"
proof -
  have "\<forall>r \<in> set (df_debt csv). Indicator_Code r = ''DT.TDS.DPPG.CD''"
    by (simp add: set_df_debt)
  moreover have "set (df_debt_filtered (df_debt csv) year_range) \<subseteq> set (df_debt csv)"
    by (auto simp: df_debt_filtered_def)
  moreover have "\<And>w view. debt_section csv user = Inr (w, view) \<Longrightarrow> set view \<subseteq> set (df_debt csv)"
    by (rule debt_section_view)
  ultimately show ?thesis
    unfolding df_debt_def [symmetric] by (simp add: filter_indicator_def) blast
qed

text \<open>The invariant on the view of the example, with the slider untouched.\<close>

theorem indicator_invariant_witness:
  "debt_section debt_example None =
     Inr (\<lparr>min_value = 1970, max_value = 2022, slider_value = (1970, 2022)\<rparr>,
          [\<lparr>refPeriod = 1970, Indicator_Code = ''DT.TDS.DPPG.CD'', Value = 5\<rparr>,
           \<lparr>refPeriod = 1980, Indicator_Code = ''DT.TDS.DPPG.CD'', Value = 50\<rparr>,
           \<lparr>refPeriod = 2022, Indicator_Code = ''DT.TDS.DPPG.CD'', Value = 0\<rparr>]) \<and>
   Indicator_Code \<lparr>refPeriod = 1970, Indicator_Code = ''DT.TDS.DPPG.CD'', Value = 5::int\<rparr> =
     ''DT.TDS.DPPG.CD'' \<and>
   set (df_debt_filtered (df_debt debt_example) (1970, 2022)) \<noteq> {}"
proof -
  have run: "debt_section debt_example None =
     Inr (\<lparr>min_value = 1970, max_value = 2022, slider_value = (1970, 2022)\<rparr>,
          [\<lparr>refPeriod = 1970, Indicator_Code = ''DT.TDS.DPPG.CD'', Value = 5\<rparr>,
           \<lparr>refPeriod = 1980, Indicator_Code = ''DT.TDS.DPPG.CD'', Value = 50\<rparr>,
           \<lparr>refPeriod = 2022, Indicator_Code = ''DT.TDS.DPPG.CD'', Value = 0\<rparr>])"
    by (simp add: debt_example_def debt_defs Let_def)
  have ne: "set (df_debt_filtered (df_debt debt_example) (1970, 2022)) \<noteq> {}"
    by (simp add: debt_example_def debt_defs)
  show ?thesis
    using indicator_invariant [of debt_example "(1970, 2022)" None] run ne by auto
qed

text \<open>
  Claim C6. When no row of the debt data has indicator code \<^verbatim>\<open>DT.TDS.DPPG.CD\<close>, the
  computation of \<open>min_year\<close> raises \<^verbatim>\<open>ValueError\<close>; the debt section and the whole run
  end with that error, whatever the other inputs are, so no chart is produced.
\<close>

theorem no_indicator_rows_fatal:
  assumes "\<forall>r \<in> set csv. Indicator_Code r \<noteq> ''DT.TDS.DPPG.CD''"
  shows "min_year (df_debt csv) = Inl ValueError \<and>
         debt_section csv user = Inl ValueError \<and>
         run_script bounds \<lparr>debt_csv = csv, hepatitis_csv = hep, year_range_set = user,
                     years_set = ys, view_set = v, button = b\<rparr> = Inl ValueError"
proof -
  have empty: "filter_indicator csv = []"
    using assms by (simp add: filter_indicator_def filter_empty_conv)
  then have "df_debt csv = []"
    by (simp add: df_debt_Nil_iff)
  then have "min_year (df_debt csv) = Inl ValueError"
    by (simp add: min_year_def series_min_Nil)
  moreover have "debt_section csv user = Inl ValueError"
    using empty by (rule debt_section_Inl)
  ultimately show ?thesis
    by (simp add: run_script_def)
qed

text \<open>A data set whose only row is of another indicator.\<close>

theorem no_indicator_rows_fatal_witness:
  "filter_indicator [\<lparr>refPeriod = 1975, Indicator_Code = ''DT.DOD.DECT.CD'', Value = 9::int\<rparr>] = [] \<and>
   run_script nanoseconds
     \<lparr>debt_csv = [\<lparr>refPeriod = 1975, Indicator_Code = ''DT.DOD.DECT.CD'', Value = 9::int\<rparr>],
      hepatitis_csv = [], year_range_set = None, years_set = None,
      view_set = None, button = False\<rparr> = Inl ValueError"
  using no_indicator_rows_fatal
    [of "[\<lparr>refPeriod = 1975, Indicator_Code = ''DT.DOD.DECT.CD'', Value = 9::int\<rparr>]"
        None nanoseconds "[]" None None False]
  by (simp add: filter_indicator_def)




section \<open>Properties of the hepatitis section\<close>

lemma sort_remdups_cong:
  fixes xs ys :: "'a::linorder list"
  assumes "set xs = set ys"
  shows "sort (remdups xs) = sort (remdups ys)"
  using assms by (metis sorted_list_of_set_sort_remdups)

lemma filter_sort_remdups:
  fixes xs :: "'a::linorder list"
  shows "filter P (sort (remdups xs)) = sort (remdups (filter P xs))"
  by (rule sorted_distinct_set_unique) (simp_all add: sorted_wrt_filter)

lemma sum_list_pick:
  assumes "distinct ks"
  shows "sum_list (map (\<lambda>k. if a = k then (c::int) else 0) ks) = (if a \<in> set ks then c else 0)"
  using assms by (induction ks) auto

lemma sum_groups:
  fixes col :: "'r \<Rightarrow> int"
  assumes "distinct ks"
  shows "sum_list (map (\<lambda>k. sum_list (map col (filter (\<lambda>r. key r = k) df))) ks) =
         sum_list (map col (filter (\<lambda>r. key r \<in> set ks) df))"
proof (induction df)
  case Nil
  then show ?case by simp
next
  case (Cons r df)
  have "sum_list (map (\<lambda>k. sum_list (map col (filter (\<lambda>r. key r = k) (r # df)))) ks) =
        sum_list (map (\<lambda>k. (if key r = k then col r else 0) +
                             sum_list (map col (filter (\<lambda>r. key r = k) df))) ks)"
    by (rule arg_cong [where f = sum_list], rule map_cong) auto
  also have "\<dots> = (if key r \<in> set ks then col r else 0) +
                   sum_list (map col (filter (\<lambda>r. key r \<in> set ks) df))"
    by (simp add: sum_list_addf sum_list_pick [OF assms] Cons.IH)
  finally show ?case by simp
qed

lemma groupby_sum_filter:
  "filter (\<lambda>b. P (fst b)) (groupby_sum key col df) =
   groupby_sum key col (filter (\<lambda>r. P (key r)) df)"
proof -
  have keys: "filter P (sort (remdups (map key df))) =
              sort (remdups (map key (filter (\<lambda>r. P (key r)) df)))"
    by (simp add: filter_sort_remdups filter_map comp_def)
  have "filter (\<lambda>b. P (fst b)) (groupby_sum key col df) =
        map (\<lambda>k. (k, sum_list (map col (filter (\<lambda>r. key r = k) df))))
            (filter P (sort (remdups (map key df))))"
    by (simp add: groupby_sum_def filter_map comp_def)
  also have "\<dots> = map (\<lambda>k. (k, sum_list (map col (filter (\<lambda>r. key r = k)
                                  (filter (\<lambda>r. P (key r)) df)))))
                       (filter P (sort (remdups (map key df))))"
  proof (rule map_cong [OF refl])
    fix k assume "k \<in> set (filter P (sort (remdups (map key df))))"
    then have "P k" by simp
    then have "filter (\<lambda>r. key r = k) (filter (\<lambda>r. P (key r)) df) = filter (\<lambda>r. key r = k) df"
      by (auto intro: filter_cong)
    then show "(k, sum_list (map col (filter (\<lambda>r. key r = k) df))) =
               (k, sum_list (map col (filter (\<lambda>r. key r = k) (filter (\<lambda>r. P (key r)) df))))"
      by simp
  qed
  also have "\<dots> = groupby_sum key col (filter (\<lambda>r. P (key r)) df)"
    by (simp add: groupby_sum_def keys)
  finally show ?thesis .
qed

lemma groupby_sum_regroup:
  "groupby_sum (\<lambda>b. g (fst b)) snd (groupby_sum key col df) =
   groupby_sum (\<lambda>r. g (key r)) col df"
proof -
  let ?ks = "sort (remdups (map key df))"
  let ?F = "\<lambda>k. (k, sum_list (map col (filter (\<lambda>r. key r = k) df)))"
  have keys: "sort (remdups (map (\<lambda>b. g (fst b)) (map ?F ?ks))) =
              sort (remdups (map (\<lambda>r. g (key r)) df))"
    by (rule sort_remdups_cong) (auto simp: image_iff)
  have sums: "sum_list (map snd (filter (\<lambda>b. g (fst b) = j) (map ?F ?ks))) =
              sum_list (map col (filter (\<lambda>r. g (key r) = j) df))" for j
  proof -
    have "sum_list (map snd (filter (\<lambda>b. g (fst b) = j) (map ?F ?ks))) =
          sum_list (map (\<lambda>k. sum_list (map col (filter (\<lambda>r. key r = k) df)))
                        (filter (\<lambda>k. g k = j) ?ks))"
      by (simp add: filter_map comp_def)
    also have "\<dots> = sum_list (map col (filter (\<lambda>r. key r \<in> set (filter (\<lambda>k. g k = j) ?ks)) df))"
      by (rule sum_groups) simp
    also have "filter (\<lambda>r. key r \<in> set (filter (\<lambda>k. g k = j) ?ks)) df =
               filter (\<lambda>r. g (key r) = j) df"
      by (rule filter_cong) auto
    finally show ?thesis .
  qed
  show ?thesis
    unfolding groupby_sum_def [of "\<lambda>b. g (fst b)"] groupby_sum_def [of key]
    by (simp only: keys sums) (simp add: groupby_sum_def)
qed



lemma str_extract_None_iff: "str_extract s = None \<longleftrightarrow> (\<forall>i. \<not> re_match (drop i s))"
proof (induction s)
  case Nil
  then show ?case by simp
next
  case (Cons c cs)
  show ?case
  proof (cases "re_match (c # cs)")
    case True
    then have "\<exists>i. re_match (drop i (c # cs))"
      by (intro exI [of _ 0]) simp
    with True show ?thesis by simp
  next
    case False
    have "(\<forall>i. \<not> re_match (drop i (c # cs))) \<longleftrightarrow> (\<forall>i. \<not> re_match (drop i cs))"
    proof
      assume h: "\<forall>i. \<not> re_match (drop i (c # cs))"
      show "\<forall>i. \<not> re_match (drop i cs)"
      proof
        fix i show "\<not> re_match (drop i cs)" using h [rule_format, of "Suc i"] by simp
      qed
    next
      assume h: "\<forall>i. \<not> re_match (drop i cs)"
      show "\<forall>i. \<not> re_match (drop i (c # cs))"
      proof
        fix i show "\<not> re_match (drop i (c # cs))"
          using h False by (cases i) simp_all
      qed
    qed
    with False Cons.IH show ?thesis by simp
  qed
qed

lemma str_extract_first:
  assumes "re_match (drop i s)" and "\<forall>j<i. \<not> re_match (drop j s)"
  shows "str_extract s = Some (take 7 (drop i s))"
  using assms
proof (induction s arbitrary: i)
  case Nil
  then show ?case by simp
next
  case (Cons c cs)
  show ?case
  proof (cases i)
    case 0
    with Cons.prems show ?thesis by simp
  next
    case (Suc k)
    with Cons.prems have no: "\<not> re_match (c # cs)"
      by (metis drop0 zero_less_Suc)
    have m: "re_match (drop k cs)"
      using Cons.prems(1) Suc by simp
    have "\<forall>j<k. \<not> re_match (drop j cs)"
    proof (intro allI impI)
      fix j assume "j < k"
      then have "Suc j < i" using Suc by simp
      with Cons.prems(2) have "\<not> re_match (drop (Suc j) (c # cs))" by blast
      then show "\<not> re_match (drop j cs)" by simp
    qed
    with m have "str_extract cs = Some (take 7 (drop k cs))"
      by (rule Cons.IH)
    with no Suc show ?thesis by simp
  qed
qed

lemma dated_None:
  assumes "(\<forall>i. \<not> re_match (drop i (refPeriod_text r))) \<or>
           (\<exists>i. re_match (drop i (refPeriod_text r)) \<and>
                (\<forall>j<i. \<not> re_match (drop j (refPeriod_text r))) \<and>
                to_datetime bounds (Some (take 7 (drop i (refPeriod_text r)))) = None)"
  shows "dated bounds r = None"
  using assms
proof
  assume "\<forall>i. \<not> re_match (drop i (refPeriod_text r))"
  then have "str_extract (refPeriod_text r) = None"
    by (simp add: str_extract_None_iff)
  then show ?thesis by (simp add: dated_def)
next
  assume "\<exists>i. re_match (drop i (refPeriod_text r)) \<and>
                (\<forall>j<i. \<not> re_match (drop j (refPeriod_text r))) \<and>
                to_datetime bounds (Some (take 7 (drop i (refPeriod_text r)))) = None"
  then obtain i where "re_match (drop i (refPeriod_text r))"
    and "\<forall>j<i. \<not> re_match (drop j (refPeriod_text r))"
    and nat: "to_datetime bounds (Some (take 7 (drop i (refPeriod_text r)))) = None"
    by blast
  then have "str_extract (refPeriod_text r) = Some (take 7 (drop i (refPeriod_text r)))"
    by (simp add: str_extract_first)
  with nat show ?thesis by (simp add: dated_def)
qed

lemma map_filter_app: "List.map_filter f (xs @ ys) = List.map_filter f xs @ List.map_filter f ys"
  by (simp add: List.map_filter_def)

lemma df_hepatitis_drop:
  assumes "dated bounds r = None"
  shows "df_hepatitis bounds (xs @ r # ys) = df_hepatitis bounds (xs @ ys)"
  using assms by (simp add: df_hepatitis_def map_filter_app)









lemma cases_filtered_as_groupby:
  "cases_filtered bounds csv user =
   groupby_sum (\<lambda>r. (Date r, Year r)) Number_of_cases
     (filter (\<lambda>r. Year r \<in> set (years_selected bounds csv user)) (df_hepatitis bounds csv))"
  using groupby_sum_filter
    [of "\<lambda>k. snd k \<in> set (years_selected bounds csv user)" "\<lambda>r. (Date r, Year r)"
        Number_of_cases "df_hepatitis bounds csv"]
  by (simp add: cases_filtered_def isin_def cases_over_time_def bucket_Year_def)

text \<open>
  Claim C2. For every hepatitis data set and every selection of years, the yearly totals
  computed from the filtered monthly buckets are the sums of the retained rows of the
  selected years, grouped by \<open>Year\<close>; each bar is the sum of the monthly buckets of its
  year in the filtered view; and this is the data of the "Yearly Totals" chart.
\<close>

theorem yearly_totals_reaggregate:
  "yearly_cases (cases_filtered bounds csv user) =
     groupby_sum Year Number_of_cases
       (filter (\<lambda>r. Year r \<in> set (years_selected bounds csv user)) (df_hepatitis bounds csv)) \<and>
   (\<forall>bar \<in> set (yearly_cases (cases_filtered bounds csv user)).
      snd bar = sum_list (map bucket_cases
                  (filter (\<lambda>b. bucket_Year b = fst bar) (cases_filtered bounds csv user)))) \<and>
   hepatitis_section bounds csv user (Some ''Yearly Totals'') =
     Yearly_Totals (yearly_cases (cases_filtered bounds csv user))"
proof -
  let ?rows = "filter (\<lambda>r. Year r \<in> set (years_selected bounds csv user)) (df_hepatitis bounds csv)"
  have "yearly_cases (cases_filtered bounds csv user) =
        groupby_sum (\<lambda>b. snd (fst b)) snd
          (groupby_sum (\<lambda>r. (Date r, Year r)) Number_of_cases ?rows)"
    unfolding yearly_cases_def cases_filtered_as_groupby
    by (rule arg_cong2 [where f = "\<lambda>k c. groupby_sum k c _"])
       (auto simp: bucket_Year_def bucket_cases_def)
  also have "\<dots> = groupby_sum (\<lambda>r. snd (Date r, Year r)) Number_of_cases ?rows"
    by (rule groupby_sum_regroup)
  finally have first: "yearly_cases (cases_filtered bounds csv user) =
        groupby_sum Year Number_of_cases ?rows"
    by simp
  have second: "\<forall>bar \<in> set (yearly_cases (cases_filtered bounds csv user)).
      snd bar = sum_list (map bucket_cases
                  (filter (\<lambda>b. bucket_Year b = fst bar) (cases_filtered bounds csv user)))"
    by (auto simp: yearly_cases_def groupby_sum_def)
  have third: "hepatitis_section bounds csv user (Some ''Yearly Totals'') =
     Yearly_Totals (yearly_cases (cases_filtered bounds csv user))"
    by (simp add: hepatitis_section_def aggregation_def st_radio_def)
  from first second third show ?thesis by blast
qed

lemma cases_over_time_months:
  "cases_over_time nanoseconds hepatitis_months =
     [(((2015, 1), ''2015''), 11), (((2015, 2), ''2015''), 4), (((2016, 3), ''2016''), 2)]"
  unfolding hepatitis_months_def by code_simp

lemma yearly_months:
  "yearly_cases (cases_filtered nanoseconds hepatitis_months (Some [''2015''])) = [(''2015'', 15)]"
  unfolding hepatitis_months_def by code_simp

text \<open>Four rows in three months of two years, with 2015 selected.\<close>

theorem yearly_totals_reaggregate_witness:
  "yearly_cases (cases_filtered nanoseconds hepatitis_months (Some [''2015''])) = [(''2015'', 15)] \<and>
   cases_filtered nanoseconds hepatitis_months (Some [''2015'']) =
     [(((2015, 1), ''2015''), 11), (((2015, 2), ''2015''), 4)] \<and>
   groupby_sum Year Number_of_cases
     (filter (\<lambda>r. Year r \<in> set (years_selected nanoseconds hepatitis_months (Some [''2015''])))
        (df_hepatitis nanoseconds hepatitis_months)) = [(''2015'', 15)] \<and>
   hepatitis_section nanoseconds hepatitis_months (Some [''2015'']) (Some ''Yearly Totals'') =
     Yearly_Totals [(''2015'', 15)]"
proof -
  have f: "cases_filtered nanoseconds hepatitis_months (Some [''2015'']) =
     [(((2015, 1), ''2015''), 11), (((2015, 2), ''2015''), 4)]"
    by (simp add: cases_filtered_def cases_over_time_months isin_def years_selected_def
        st_multiselect_def bucket_Year_def)
  show ?thesis
    using yearly_totals_reaggregate [of nanoseconds hepatitis_months "Some [''2015'']"] yearly_months f
    by simp
qed

text \<open>
  Claim C3. A row whose \<open>refPeriod\<close> matches the pattern (two digits, a hyphen, four
  digits) at no position, or whose leftmost match does not parse as a month and a year,
  contributes nothing: wherever it stands in the data, the retained rows, the
  (Date, Year) buckets, the filtered view, the yearly totals and the chart are those of
  the data without it.
\<close>

theorem dropped_rows_contribute_nothing:
  assumes "(\<forall>i. \<not> re_match (drop i (refPeriod_text r))) \<or>
           (\<exists>i. re_match (drop i (refPeriod_text r)) \<and>
                (\<forall>j<i. \<not> re_match (drop j (refPeriod_text r))) \<and>
                to_datetime bounds (Some (take 7 (drop i (refPeriod_text r)))) = None)"
  shows "df_hepatitis bounds (xs @ r # ys) = df_hepatitis bounds (xs @ ys) \<and>
         cases_over_time bounds (xs @ r # ys) = cases_over_time bounds (xs @ ys) \<and>
         cases_filtered bounds (xs @ r # ys) user = cases_filtered bounds (xs @ ys) user \<and>
         yearly_cases (cases_filtered bounds (xs @ r # ys) user) =
           yearly_cases (cases_filtered bounds (xs @ ys) user) \<and>
         hepatitis_section bounds (xs @ r # ys) user view = hepatitis_section bounds (xs @ ys) user view"
proof -
  have "dated bounds r = None"
    using assms by (rule dated_None)
  then have df: "df_hepatitis bounds (xs @ r # ys) = df_hepatitis bounds (xs @ ys)"
    by (rule df_hepatitis_drop)
  then have "cases_over_time bounds (xs @ r # ys) = cases_over_time bounds (xs @ ys)"
    by (simp add: cases_over_time_def)
  then have "cases_filtered bounds (xs @ r # ys) user = cases_filtered bounds (xs @ ys) user"
    by (simp add: cases_filtered_def years_selected_def)
  with df show ?thesis
    by (simp add: cases_over_time_def hepatitis_section_def)
qed

text \<open>A row with month 13 and a row without the pattern, after one valid row.\<close>

theorem dropped_rows_contribute_nothing_witness:
  "re_match (drop 0 ''13-2015'') \<and> to_datetime nanoseconds (Some (take 7 (drop 0 ''13-2015''))) = None \<and>
   \<not> re_match (drop 0 ''n/a'') \<and>
   cases_over_time nanoseconds
     ([\<lparr>refPeriod_text = ''02-2016'', Number_of_cases = 7\<rparr>] @
       \<lparr>refPeriod_text = ''13-2015'', Number_of_cases = 5\<rparr> #
      [\<lparr>refPeriod_text = ''n/a'', Number_of_cases = 3\<rparr>]) =
     [(((2016, 2), ''2016''), 7)] \<and>
   yearly_cases (cases_filtered nanoseconds
     ([\<lparr>refPeriod_text = ''02-2016'', Number_of_cases = 7\<rparr>] @
       \<lparr>refPeriod_text = ''13-2015'', Number_of_cases = 5\<rparr> #
      [\<lparr>refPeriod_text = ''n/a'', Number_of_cases = 3\<rparr>]) None) =
     [(''2016'', 7)]"
proof -
  let ?a = "\<lparr>refPeriod_text = ''02-2016'', Number_of_cases = 7\<rparr>"
  let ?b = "\<lparr>refPeriod_text = ''13-2015'', Number_of_cases = 5\<rparr>"
  let ?c = "\<lparr>refPeriod_text = ''n/a'', Number_of_cases = 3\<rparr>"
  have m: "re_match (drop 0 ''13-2015'')"
    by (simp add: is_digit_def)
  have n: "to_datetime nanoseconds (Some (take 7 (drop 0 ''13-2015''))) = None"
    by (simp add: to_datetime_def strptime_def parse_month_def)
  have hb: "(\<forall>i. \<not> re_match (drop i (refPeriod_text ?b))) \<or>
           (\<exists>i. re_match (drop i (refPeriod_text ?b)) \<and>
                (\<forall>j<i. \<not> re_match (drop j (refPeriod_text ?b))) \<and>
                to_datetime nanoseconds (Some (take 7 (drop i (refPeriod_text ?b)))) = None)"
    using m n by (intro disjI2 exI [of _ 0]) simp
  have hc: "(\<forall>i. \<not> re_match (drop i (refPeriod_text ?c))) \<or>
           (\<exists>i. re_match (drop i (refPeriod_text ?c)) \<and>
                (\<forall>j<i. \<not> re_match (drop j (refPeriod_text ?c))) \<and>
                to_datetime nanoseconds (Some (take 7 (drop i (refPeriod_text ?c)))) = None)"
  proof (intro disjI1 allI)
    fix i
    have "length (drop i ''n/a'') < 7" by simp
    then have "\<not> re_match (drop i ''n/a'')"
      by (cases "drop i ''n/a''" rule: re_match.cases) simp_all
    then show "\<not> re_match (drop i (refPeriod_text ?c))" by simp
  qed
  have base: "cases_over_time nanoseconds [?a] = [(((2016, 2), ''2016''), 7)]"
    by code_simp
  have ybase: "yearly_cases (cases_filtered nanoseconds [?a] None) = [(''2016'', 7)]"
    by code_simp
  have nc: "\<not> re_match (drop 0 ''n/a'')" by simp
  show ?thesis
    using dropped_rows_contribute_nothing [OF hb, of "[?a]" "[?c]" None]
      dropped_rows_contribute_nothing [OF hc, of "[?a]" "[]" None]
      base ybase m n nc
    by simp
qed

text \<open>
  Claim C4. When the user selects no year, the filtered buckets are empty and the chart
  of the hepatitis section has no bars, in the monthly view, in the yearly view and with
  the view left at its default; the section has no failing step.
\<close>

theorem empty_selection_empty_chart:
  "cases_filtered bounds csv (Some []) = [] \<and>
   hepatitis_section bounds csv (Some []) (Some ''Monthly Cases'') = Monthly_Cases [] \<and>
   hepatitis_section bounds csv (Some []) (Some ''Yearly Totals'') = Yearly_Totals [] \<and>
   bars (hepatitis_section bounds csv (Some []) user_view) = 0"
proof -
  have "cases_filtered bounds csv (Some []) = []"
    by (simp add: cases_filtered_def years_selected_def st_multiselect_def isin_def)
  then show ?thesis
    by (simp add: hepatitis_section_def aggregation_def st_radio_def yearly_cases_def
        groupby_sum_def)
qed

text \<open>
  Claim C7. Of the rows \<^verbatim>\<open>01-2015\<close> (10 cases) and \<^verbatim>\<open>13-2015\<close> (5 cases) the second
  matches the pattern but is no date and is dropped; the only bucket is January 2015 with
  10 cases and the total of the year 2015 is 10. This holds with every pandas that can
  represent January 2015.
\<close>

theorem example_invalid_month:
  assumes "bounds (2015, 1)"
  shows "str_extract ''13-2015'' = Some ''13-2015'' \<and>
         to_datetime bounds (Some ''13-2015'') = None \<and>
         df_hepatitis bounds hepatitis_example =
           [\<lparr>refPeriod_text = ''01-2015'', Number_of_cases = 10,
             Date = (2015, 1), Year = ''2015''\<rparr>] \<and>
         cases_over_time bounds hepatitis_example = [(((2015, 1), ''2015''), 10)] \<and>
         yearly_cases (cases_filtered bounds hepatitis_example None) = [(''2015'', 10)] \<and>
         hepatitis_section bounds hepatitis_example None (Some ''Yearly Totals'') =
           Yearly_Totals [(''2015'', 10)]"
proof -
  have tok: "str_extract ''13-2015'' = Some ''13-2015''"
    by (simp add: is_digit_def)
  have bad: "to_datetime bounds (Some ''13-2015'') = None"
    by (simp add: to_datetime_def strptime_def parse_month_def)
  have year: "str_nat 2015 = ''2015''"
    by code_simp
  have good: "strptime ''01-2015'' = Some (2015, 1)"
    by code_simp
  have df: "df_hepatitis bounds hepatitis_example =
     [\<lparr>refPeriod_text = ''01-2015'', Number_of_cases = 10, Date = (2015, 1), Year = ''2015''\<rparr>]"
    using assms tok bad good year
    by (simp add: df_hepatitis_def hepatitis_example_def dated_def to_datetime_def is_digit_def)
  have buckets: "cases_over_time bounds hepatitis_example = [(((2015, 1), ''2015''), 10)]"
    by (simp add: cases_over_time_def df groupby_sum_def)
  have filtered: "cases_filtered bounds hepatitis_example None = [(((2015, 1), ''2015''), 10)]"
    by (simp add: cases_filtered_def years_selected_def buckets st_multiselect_def
        years_available_def isin_def bucket_Year_def)
  have yearly: "yearly_cases (cases_filtered bounds hepatitis_example None) = [(''2015'', 10)]"
    by (simp add: filtered yearly_cases_def groupby_sum_def bucket_Year_def bucket_cases_def)
  have "hepatitis_section bounds hepatitis_example None (Some ''Yearly Totals'') =
           Yearly_Totals [(''2015'', 10)]"
    by (simp add: hepatitis_section_def aggregation_def st_radio_def yearly)
  with tok bad df buckets yearly show ?thesis by simp
qed

text \<open>The example with the dates of pandas before 3.0.\<close>

theorem example_invalid_month_witness:
  "nanoseconds (2015, 1) \<and>
   cases_over_time nanoseconds hepatitis_example = [(((2015, 1), ''2015''), 10)] \<and>
   yearly_cases (cases_filtered nanoseconds hepatitis_example None) = [(''2015'', 10)]"
proof -
  have b: "nanoseconds (2015, 1)"
    by (simp add: nanoseconds_def)
  show ?thesis
    using example_invalid_month [of nanoseconds] b by simp
qed



end
